theory Spec2Isabelle
  imports Main "HOL-Library.Word"
begin

section \<open>The configuration binding of pygit2 (src/config.c)\<close>

text \<open>
  \<^verbatim>\<open>src/config.c\<close> wraps libgit2's \<^verbatim>\<open>git_config\<close> handle as the Python type
  \<^verbatim>\<open>_pygit2.Config\<close>. The functions of that file are embedded one by one below.
  Everything they call but do not define is kept outside the embedding:

  \<^item> libgit2's primitives are fields of the record \<open>libgit2\<close>: each field gives the status
    code and the output of one primitive, for an arbitrary type \<open>'c\<close> of handle states;
  \<^item> the CPython calls whose failure the source checks are fields of the record
    \<open>python\<close>;
  \<^item> CPython's error indicator is explicit: a C function of the binding returns its C
    result together with the indicator it leaves behind (\<open>None\<close> is a clear indicator).
    The C-API convention is that a call failed exactly when it returns \<^verbatim>\<open>NULL\<close> (or
    \<open>-1\<close> for an \<^verbatim>\<open>int\<close> function); the indicator is kept as well, since two
    functions of the file return a value while it is set.
\<close>

subsection \<open>Python values and exceptions\<close>

datatype py_obj =
    Py_None
  | PyBool bool
  | PyLong int
  | PyUnicode string
  | PyList "py_obj list"
  | PyFunction nat
  | PyIndex nat int
  | PyObject nat

text \<open>
  \<open>PyFunction n\<close> is a callable object. \<open>PyIndex n i\<close> is an object of another class
  that is no \<^verbatim>\<open>int\<close> but converts to the integer \<open>i\<close> through the number protocol
  (its \<^verbatim>\<open>__index__\<close> method). \<open>PyObject n\<close> is any other object, with no such
  conversion. In all three \<open>n\<close> only tells objects apart.

  The exceptions the file raises. \<open>Error_set err\<close> is the exception that
  \<^verbatim>\<open>Error_set(err)\<close> of \<^verbatim>\<open>error.c\<close> installs for the libgit2 status \<open>err\<close>; the
  messages are left out.
\<close>

datatype py_exc =
    PyExc_TypeError
  | PyExc_IOError
  | PyExc_KeyError py_obj
  | PyExc_OverflowError
  | PyExc_UnicodeDecodeError
  | PyExc_Exception nat
  | Error_set int

type_synonym indicator = "py_exc option"

definition GIT_ENOTFOUND :: int where
  "GIT_ENOTFOUND = - 3"

text \<open>
  Modelled from the spec: \<^verbatim>\<open>Error_type\<close> of \<^verbatim>\<open>error.c\<close>, which chooses the exception
  class for a status code, is not under \<^verbatim>\<open>src/\<close>. The error taxonomy of the spec
  (section 7) names the kinds; \<open>error_kind\<close> reads an exception of the model as one of
  them. \<^verbatim>\<open>KeyError\<close> is the "not found" kind ("fails with KeyError-equivalent if the
  key does not exist"), and so is what \<^verbatim>\<open>Error_set\<close> installs for the "not found"
  status; every other status is a backend error; \<^verbatim>\<open>IOError\<close> is the I/O kind.
\<close>

datatype error_kind = NotFound | IOError | BackendError | OtherError

definition error_kind :: "py_exc \<Rightarrow> error_kind" where
  "error_kind e =
     (case e of
        PyExc_KeyError k \<Rightarrow> NotFound
      | Error_set err \<Rightarrow> (if err = GIT_ENOTFOUND then NotFound else BackendError)
      | PyExc_IOError \<Rightarrow> IOError
      | _ \<Rightarrow> OtherError)"

subsection \<open>libgit2 and CPython, as the file sees them\<close>

text \<open>
  The fields \<^verbatim>\<open>name\<close> and \<^verbatim>\<open>value\<close> of libgit2's \<^verbatim>\<open>git_config_entry\<close>; the second
  is \<open>val\<close> here.
\<close>

record git_config_entry =
  name :: string
  val :: string

text \<open>
  One field per primitive: the status code first, then what the primitive writes through
  its output pointer (meaningful when the status is not negative), and the new state of
  the handle for the primitives that change it. \<open>config_entries\<close> is the sequence of
  entries that \<^verbatim>\<open>git_config_foreach\<close> enumerates; \<open>multivar_entries\<close> is the status and the
  sequence of entries that \<^verbatim>\<open>git_config_get_multivar_foreach\<close> selects for a name
  and an optional regular expression.
\<close>

record 'c libgit2 =
  git_config_new :: "int \<times> 'c"
  git_config_open_ondisk :: "string \<Rightarrow> int \<times> 'c"
  git_config_find_global :: "int \<times> string"
  git_config_find_system :: "int \<times> string"
  git_config_get_string :: "'c \<Rightarrow> string \<Rightarrow> int \<times> string"
  git_config_parse_int64 :: "string \<Rightarrow> int \<times> 64 word"
  git_config_parse_bool :: "string \<Rightarrow> int \<times> int"
  git_config_delete_entry :: "'c \<Rightarrow> string \<Rightarrow> int \<times> 'c"
  git_config_set_bool :: "'c \<Rightarrow> string \<Rightarrow> int \<Rightarrow> int \<times> 'c"
  git_config_set_int64 :: "'c \<Rightarrow> string \<Rightarrow> 64 word \<Rightarrow> int \<times> 'c"
  git_config_set_string :: "'c \<Rightarrow> string \<Rightarrow> string option \<Rightarrow> int \<times> 'c"
  config_entries :: "'c \<Rightarrow> git_config_entry list"
  multivar_entries :: "'c \<Rightarrow> string \<Rightarrow> string option \<Rightarrow> int \<times> git_config_entry list"

datatype call_result = Returns py_obj | Raises py_exc

text \<open>
  \<open>PyObject_CallObject\<close> runs a callable on an argument tuple in a state \<open>'v\<close> of the
  Python program (whatever the callable can read and change). \<open>to_unicode\<close> is the
  macro of \<^verbatim>\<open>utils.h\<close> (not under \<^verbatim>\<open>src/\<close>) that builds a Python string from a C
  string; \<open>Py_BuildValue_s\<close> is the conversion that \<^verbatim>\<open>Py_BuildValue\<close> applies to one
  \<^verbatim>\<open>"s"\<close> argument. The source checks both for failure, so both may fail here:
  \<open>None\<close> is \<^verbatim>\<open>NULL\<close>, and the exception then set is taken to be a
  \<^verbatim>\<open>UnicodeDecodeError\<close>.
\<close>

record 'v python =
  PyObject_CallObject :: "py_obj \<Rightarrow> py_obj list \<Rightarrow> 'v \<Rightarrow> call_result \<times> 'v"
  to_unicode :: "string \<Rightarrow> py_obj option"
  Py_BuildValue_s :: "string \<Rightarrow> py_obj option"

text \<open>
  Modelled from the spec: \<^verbatim>\<open>py_str_to_c_str\<close> of \<^verbatim>\<open>utils.h\<close> is not under
  \<^verbatim>\<open>src/\<close>. By the spec's string boundary, keys and values cross as text: a string
  object gives its text, and any other object fails with a \<^verbatim>\<open>TypeError\<close> (the result
  is \<^verbatim>\<open>NULL\<close>).
\<close>

definition py_str_to_c_str :: "py_obj \<Rightarrow> string option" where
  "py_str_to_c_str value = (case value of PyUnicode s \<Rightarrow> Some s | _ \<Rightarrow> None)"

subsection \<open>Containment and lookup\<close>

text \<open>\<^verbatim>\<open>Config_contains\<close> (lines 146-168): the \<^verbatim>\<open>int\<close> result and the indicator.\<close>

definition Config_contains :: "'c libgit2 \<Rightarrow> 'c \<Rightarrow> py_obj \<Rightarrow> int \<times> indicator" where
  "Config_contains lib config py_key =
     (case py_str_to_c_str py_key of
        None \<Rightarrow> (- 1, Some PyExc_TypeError)
      | Some c_key \<Rightarrow>
          (let (err, c_value) = git_config_get_string lib config c_key in
           if err < 0 then
             (if err = GIT_ENOTFOUND then (0, None)
              else (- 1, Some (Error_set err)))
           else (1, None)))"

text \<open>
  \<^verbatim>\<open>Config_getitem\<close> (lines 171-208): the object returned (\<open>None\<close> is \<^verbatim>\<open>NULL\<close>) and
  the indicator. \<^verbatim>\<open>PyLong_FromLongLong\<close> reads the \<^verbatim>\<open>int64_t\<close> as a signed number,
  \<^verbatim>\<open>PyBool_FromLong\<close> gives \<^verbatim>\<open>True\<close> for every non-zero \<^verbatim>\<open>int\<close>.
\<close>

definition Config_getitem ::
  "'c libgit2 \<Rightarrow> 'v python \<Rightarrow> 'c \<Rightarrow> py_obj \<Rightarrow> py_obj option \<times> indicator" where
  "Config_getitem lib py config py_key =
     (case py_str_to_c_str py_key of
        None \<Rightarrow> (None, Some PyExc_TypeError)
      | Some key \<Rightarrow>
          (let (err, value_str) = git_config_get_string lib config key in
           if err < 0 then
             (if err = GIT_ENOTFOUND then (None, Some (PyExc_KeyError py_key))
              else (None, Some (Error_set err)))
           else if fst (git_config_parse_int64 lib value_str) = 0 then
             (Some (PyLong (sint (snd (git_config_parse_int64 lib value_str)))), None)
           else if fst (git_config_parse_bool lib value_str) = 0 then
             (Some (PyBool (snd (git_config_parse_bool lib value_str) \<noteq> 0)), None)
           else
             (case to_unicode py value_str of
                None \<Rightarrow> (None, Some PyExc_UnicodeDecodeError)
              | Some py_value \<Rightarrow> (Some py_value, None))))"

subsection \<open>Assignment and deletion\<close>

text \<open>
  The CPython calls of \<^verbatim>\<open>Config_setitem\<close>. \<^verbatim>\<open>bool\<close> is a subclass of \<^verbatim>\<open>int\<close>, so
  \<^verbatim>\<open>PyLong_Check\<close> holds of a boolean as well. \<^verbatim>\<open>PyLong_AsLong\<close> gives the C
  \<^verbatim>\<open>long\<close> (64 bits here) and the exception it raises, if any: a number out of range
  gives \<open>-1\<close> and \<^verbatim>\<open>OverflowError\<close>; an object that is no \<^verbatim>\<open>int\<close> is converted
  through its \<^verbatim>\<open>__index__\<close> method, and gives \<open>-1\<close> and \<^verbatim>\<open>TypeError\<close> when it has
  none.
\<close>

definition PyBool_Check :: "py_obj \<Rightarrow> bool" where
  "PyBool_Check v = (case v of PyBool b \<Rightarrow> True | _ \<Rightarrow> False)"

definition PyLong_Check :: "py_obj \<Rightarrow> bool" where
  "PyLong_Check v = (case v of PyLong n \<Rightarrow> True | PyBool b \<Rightarrow> True | _ \<Rightarrow> False)"

definition PyObject_IsTrue :: "py_obj \<Rightarrow> int" where
  "PyObject_IsTrue v =
     (case v of
        PyBool b \<Rightarrow> (if b then 1 else 0)
      | PyLong n \<Rightarrow> (if n = 0 then 0 else 1)
      | PyUnicode s \<Rightarrow> (if s = [] then 0 else 1)
      | PyList xs \<Rightarrow> (if xs = [] then 0 else 1)
      | Py_None \<Rightarrow> 0
      | _ \<Rightarrow> 1)"

definition PyLong_AsLong :: "py_obj \<Rightarrow> int \<times> py_exc option" where
  "PyLong_AsLong v =
     (case v of
        PyLong n \<Rightarrow>
          (if - (2 ^ 63) \<le> n \<and> n < 2 ^ 63 then (n, None) else (- 1, Some PyExc_OverflowError))
      | PyBool b \<Rightarrow> (if b then (1, None) else (0, None))
      | PyIndex c n \<Rightarrow>
          (if - (2 ^ 63) \<le> n \<and> n < 2 ^ 63 then (n, None) else (- 1, Some PyExc_OverflowError))
      | _ \<Rightarrow> (- 1, Some PyExc_TypeError))"

text \<open>
  \<^verbatim>\<open>Config_setitem\<close> (lines 210-240). \<open>py_value = None\<close> is the \<^verbatim>\<open>NULL\<close> that
  CPython passes for \<^verbatim>\<open>del config[key]\<close>. The result is the \<^verbatim>\<open>int\<close>, the indicator
  and the new state of the handle. In the last branch the source does not check
  \<^verbatim>\<open>py_str_to_c_str\<close>: a \<^verbatim>\<open>NULL\<close> string goes to \<^verbatim>\<open>git_config_set_string\<close>.
\<close>

definition Config_setitem ::
  "'c libgit2 \<Rightarrow> 'c \<Rightarrow> py_obj \<Rightarrow> py_obj option \<Rightarrow> int \<times> indicator \<times> 'c" where
  "Config_setitem lib config py_key py_value =
     (case py_str_to_c_str py_key of
        None \<Rightarrow> (- 1, Some PyExc_TypeError, config)
      | Some key \<Rightarrow>
          (let (err, ind, config') =
             (case py_value of
                None \<Rightarrow>
                  (let (e, c) = git_config_delete_entry lib config key in (e, None, c))
              | Some v \<Rightarrow>
                  if PyBool_Check v then
                    (let (e, c) = git_config_set_bool lib config key (PyObject_IsTrue v)
                     in (e, None, c))
                  else if PyLong_Check v then
                    (let (l, raised) = PyLong_AsLong v;
                         (e, c) = git_config_set_int64 lib config key (word_of_int l)
                     in (e, raised, c))
                  else
                    (let value = py_str_to_c_str v;
                         (e, c) = git_config_set_string lib config key value
                     in (e, (if value = None then Some PyExc_TypeError else None), c)))
           in if err < 0 then (- 1, Some (Error_set err), config')
              else (0, ind, config')))"

subsection \<open>Opening a store\<close>

definition PyArg_ParseTuple_opt_s :: "py_obj list \<Rightarrow> string option option" where
  "PyArg_ParseTuple_opt_s args =
     (case args of
        [] \<Rightarrow> Some None
      | [PyUnicode s] \<Rightarrow> Some (Some s)
      | _ \<Rightarrow> None)"

text \<open>
  \<^verbatim>\<open>Config_init\<close> (lines 55-87): the \<^verbatim>\<open>int\<close>, the indicator and the handle stored in
  \<^verbatim>\<open>self->config\<close> (\<open>None\<close> after a failure, when the source frees it). \<open>kwds\<close> is the
  keyword dictionary, \<open>None\<close> for \<^verbatim>\<open>NULL\<close>.
\<close>

definition Config_init ::
  "'c libgit2 \<Rightarrow> py_obj list \<Rightarrow> py_obj option \<Rightarrow> int \<times> indicator \<times> 'c option" where
  "Config_init lib args kwds =
     (if kwds \<noteq> None then (- 1, Some PyExc_TypeError, None)
      else
        (case PyArg_ParseTuple_opt_s args of
           None \<Rightarrow> (- 1, Some PyExc_TypeError, None)
         | Some path \<Rightarrow>
             (let (err, config) =
                (case path of
                   None \<Rightarrow> git_config_new lib
                 | Some p \<Rightarrow> git_config_open_ondisk lib p)
              in if err < 0 then
                   (if err = GIT_ENOTFOUND then (- 1, Some PyExc_IOError, None)
                    else (- 1, Some (Error_set err), None))
                 else (0, None, Some config))))"

text \<open>
  \<^verbatim>\<open>wrap_config\<close> (lines 38-52): the new \<^verbatim>\<open>Config\<close> object, given by its handle, or
  \<^verbatim>\<open>NULL\<close>. The source builds the tuple \<^verbatim>\<open>(c_path,)\<close> and does not check it; the
  model takes the tuple as built.
\<close>

definition wrap_config :: "'c libgit2 \<Rightarrow> string \<Rightarrow> 'c option \<times> indicator" where
  "wrap_config lib c_path =
     (let (err, ind, py_config) = Config_init lib [PyUnicode c_path] None
      in if err < 0 then (None, ind) else (py_config, ind))"

text \<open>\<^verbatim>\<open>Config_get_global_config\<close> (lines 102-119).\<close>

definition Config_get_global_config :: "'c libgit2 \<Rightarrow> 'c option \<times> indicator" where
  "Config_get_global_config lib =
     (let (err, path) = git_config_find_global lib in
      if err < 0 then
        (if err = GIT_ENOTFOUND then (None, Some PyExc_IOError)
         else (None, Some (Error_set err)))
      else wrap_config lib path)"

text \<open>\<^verbatim>\<open>Config_get_system_config\<close> (lines 127-143).\<close>

definition Config_get_system_config :: "'c libgit2 \<Rightarrow> 'c option \<times> indicator" where
  "Config_get_system_config lib =
     (let (err, path) = git_config_find_system lib in
      if err < 0 then
        (if err = GIT_ENOTFOUND then (None, Some PyExc_IOError)
         else (None, Some (Error_set err)))
      else wrap_config lib path)"

subsection \<open>Enumeration\<close>

text \<open>
  The state that an enumeration threads through the visitor's calls: the error indicator,
  the state \<open>heap\<close> of the Python program, and a log \<open>calls\<close> of the calls made so far
  (the callable and its argument tuple). The log is not in the source; it is there to
  say which entries were visited.
\<close>

record 'v py_state =
  err_indicator :: indicator
  calls :: "(py_obj \<times> py_obj list) list"
  heap :: 'v

definition PyArg_ParseTuple_O_opt_O :: "py_obj list \<Rightarrow> (py_obj \<times> py_obj option) option" where
  "PyArg_ParseTuple_O_opt_O args =
     (case args of
        [a] \<Rightarrow> Some (a, None)
      | [a, b] \<Rightarrow> Some (a, Some b)
      | _ \<Rightarrow> None)"

definition PyCallable_Check :: "py_obj \<Rightarrow> bool" where
  "PyCallable_Check v = (case v of PyFunction f \<Rightarrow> True | _ \<Rightarrow> False)"

text \<open>\<^verbatim>\<open>Py_BuildValue("ss", ...)\<close> and \<^verbatim>\<open>Py_BuildValue("ssO", ...)\<close>.\<close>

definition Py_BuildValue_ss ::
  "'v python \<Rightarrow> string \<Rightarrow> string \<Rightarrow> py_obj option \<Rightarrow> py_obj list option" where
  "Py_BuildValue_ss py n v py_payload =
     (case Py_BuildValue_s py n of
        None \<Rightarrow> None
      | Some a \<Rightarrow>
          (case Py_BuildValue_s py v of
             None \<Rightarrow> None
           | Some b \<Rightarrow>
               Some (case py_payload of None \<Rightarrow> [a, b] | Some p \<Rightarrow> [a, b, p])))"

text \<open>
  The assignment \<^verbatim>\<open>c_result = PyLong_AsLong(py_result)\<close> stores a \<^verbatim>\<open>long\<close> in an
  \<^verbatim>\<open>int\<close>: the value is reduced to 32 bits, read as a signed number.
\<close>

definition int_of_long :: "int \<Rightarrow> int" where
  "int_of_long l = sint (word_of_int l :: 32 word)"

text \<open>
  \<^verbatim>\<open>Config_foreach_callback_wrapper\<close> (lines 242-270): the \<^verbatim>\<open>int\<close> handed back to
  libgit2 and the state after the call. \<open>args\<close> is the payload pointer, the argument
  tuple of \<^verbatim>\<open>Config_foreach\<close>.
\<close>

definition Config_foreach_callback_wrapper ::
  "'v python \<Rightarrow> py_obj list \<Rightarrow> git_config_entry \<Rightarrow> 'v py_state \<Rightarrow> int \<times> 'v py_state" where
  "Config_foreach_callback_wrapper py c_payload entry st =
     (case PyArg_ParseTuple_O_opt_O c_payload of
        None \<Rightarrow> (- 1, st\<lparr>err_indicator := Some PyExc_TypeError\<rparr>)
      | Some (py_callback, py_payload) \<Rightarrow>
          (case Py_BuildValue_ss py (name entry) (val entry) py_payload of
             None \<Rightarrow> (- 1, st\<lparr>err_indicator := Some PyExc_UnicodeDecodeError\<rparr>)
           | Some args \<Rightarrow>
               (let (res, h) = PyObject_CallObject py py_callback args (heap st);
                    st' = st\<lparr>calls := calls st @ [(py_callback, args)], heap := h\<rparr>
                in case res of
                     Raises e \<Rightarrow> (- 1, st'\<lparr>err_indicator := Some e\<rparr>)
                   | Returns py_result \<Rightarrow>
                       (let (l, raised) = PyLong_AsLong py_result;
                            c_result = int_of_long l;
                            st'' = (case raised of
                                      None \<Rightarrow> st'
                                    | Some e \<Rightarrow> st'\<lparr>err_indicator := Some e\<rparr>)
                        in if c_result = - 1 then (- 1, st'') else (c_result, st'')))))"

text \<open>
  Modelled from the spec: \<^verbatim>\<open>git_config_foreach\<close> is libgit2's and not under \<^verbatim>\<open>src/\<close>.
  It is the backend's iteration of section 4.5, as the docstring of \<^verbatim>\<open>Config_foreach\<close>
  relies on it: the callback runs on each entry in order, the enumeration halts at the
  first call that returns non-zero, and that value is the result; the result is 0 when
  every call returned 0.
\<close>

fun git_config_foreach_loop ::
  "git_config_entry list \<Rightarrow> (git_config_entry \<Rightarrow> 's \<Rightarrow> int \<times> 's) \<Rightarrow> 's \<Rightarrow> int \<times> 's" where
  "git_config_foreach_loop [] callback s = (0, s)"
| "git_config_foreach_loop (e # es) callback s =
     (let (r, s') = callback e s
      in if r \<noteq> 0 then (r, s') else git_config_foreach_loop es callback s')"

definition git_config_foreach ::
  "'c libgit2 \<Rightarrow> 'c \<Rightarrow> (git_config_entry \<Rightarrow> 's \<Rightarrow> int \<times> 's) \<Rightarrow> 's \<Rightarrow> int \<times> 's" where
  "git_config_foreach lib config callback s =
     git_config_foreach_loop (config_entries lib config) callback s"

text \<open>
  \<^verbatim>\<open>Config_foreach\<close> (lines 283-303): the object returned and the state after the call.
  Whatever \<^verbatim>\<open>git_config_foreach\<close> returns is handed to \<^verbatim>\<open>PyLong_FromLong\<close>.
\<close>

definition Config_foreach ::
  "'c libgit2 \<Rightarrow> 'v python \<Rightarrow> 'c \<Rightarrow> py_obj list \<Rightarrow> 'v py_state \<Rightarrow> py_obj option \<times> 'v py_state" where
  "Config_foreach lib py config args st =
     (case PyArg_ParseTuple_O_opt_O args of
        None \<Rightarrow> (None, st\<lparr>err_indicator := Some PyExc_TypeError\<rparr>)
      | Some (py_callback, py_payload) \<Rightarrow>
          if \<not> PyCallable_Check py_callback then
            (None, st\<lparr>err_indicator := Some PyExc_TypeError\<rparr>)
          else
            (let (ret, st') =
               git_config_foreach lib config (Config_foreach_callback_wrapper py args) st
             in (Some (PyLong ret), st')))"

subsection \<open>Multi-valued entries\<close>

text \<open>
  \<^verbatim>\<open>Config_get_multivar_fn_wrapper\<close> (lines 339-358). \<open>data\<close> is the list being
  collected; the indicator is threaded with it.
\<close>

definition Config_get_multivar_fn_wrapper ::
  "'v python \<Rightarrow> git_config_entry \<Rightarrow> py_obj list \<times> indicator \<Rightarrow> int \<times> py_obj list \<times> indicator" where
  "Config_get_multivar_fn_wrapper py entry data =
     (case to_unicode py (val entry) of
        None \<Rightarrow> (- 2, fst data, Some PyExc_UnicodeDecodeError)
      | Some item \<Rightarrow> (0, fst data @ [item], snd data))"

text \<open>
  \<^verbatim>\<open>git_config_get_multivar_foreach\<close> is libgit2's and not under \<^verbatim>\<open>src/\<close>; the model
  follows what the comments of the source say about it. By the comment in
  \<^verbatim>\<open>Config_get_multivar_fn_wrapper\<close> there is no way to forward an error through it: a
  negative result of the callback ends the enumeration ("early termination by the user
  is not an error") and the status is not changed by it. The status is the one that
  \<open>multivar_entries\<close> gives for the name and the regular expression.
\<close>

fun git_config_get_multivar_loop ::
  "git_config_entry list \<Rightarrow> (git_config_entry \<Rightarrow> 'd \<Rightarrow> int \<times> 'd) \<Rightarrow> 'd \<Rightarrow> 'd" where
  "git_config_get_multivar_loop [] fn data = data"
| "git_config_get_multivar_loop (e # es) fn data =
     (let (r, data') = fn e data
      in if r < 0 then data' else git_config_get_multivar_loop es fn data')"

definition git_config_get_multivar_foreach ::
  "'c libgit2 \<Rightarrow> 'c \<Rightarrow> string \<Rightarrow> string option \<Rightarrow>
   (git_config_entry \<Rightarrow> 'd \<Rightarrow> int \<times> 'd) \<Rightarrow> 'd \<Rightarrow> int \<times> 'd" where
  "git_config_get_multivar_foreach lib config nm regex fn data =
     (let (status, es) = multivar_entries lib config nm regex
      in (status, git_config_get_multivar_loop es fn data))"

definition PyArg_ParseTuple_s_opt_s :: "py_obj list \<Rightarrow> (string \<times> string option) option" where
  "PyArg_ParseTuple_s_opt_s args =
     (case args of
        [PyUnicode n] \<Rightarrow> Some (n, None)
      | [PyUnicode n, PyUnicode r] \<Rightarrow> Some (n, Some r)
      | _ \<Rightarrow> None)"

text \<open>\<^verbatim>\<open>Config_get_multivar\<close> (lines 360-389): the object returned and the indicator.\<close>

definition Config_get_multivar ::
  "'c libgit2 \<Rightarrow> 'v python \<Rightarrow> 'c \<Rightarrow> py_obj list \<Rightarrow> py_obj option \<times> indicator" where
  "Config_get_multivar lib py config args =
     (case PyArg_ParseTuple_s_opt_s args of
        None \<Rightarrow> (None, Some PyExc_TypeError)
      | Some (nm, regex) \<Rightarrow>
          (let (err, list, ind) =
             git_config_get_multivar_foreach lib config nm regex
               (Config_get_multivar_fn_wrapper py) ([], None)
           in if err < 0 then
                (if err = GIT_ENOTFOUND \<and> length list \<noteq> 0 then (Some (PyList list), ind)
                 else (None, Some (Error_set err)))
              else (Some (PyList list), ind)))"

section \<open>A sample backend and sample visitors\<close>

text \<open>
  Modelled from the spec: libgit2 is not under \<^verbatim>\<open>src/\<close>. The theorems below hold for
  every value of the records \<open>libgit2\<close> and \<open>python\<close>; to run them on concrete inputs,
  \<open>mem_lib\<close> is the backend primitive of section 6 of the spec for one in-memory table (a
  list of name and value pairs, in insertion order): lookup, set, delete, iterate, the
  base-10 signed 64-bit \<open>int64-parse\<close> and the \<open>bool-parse\<close> of the canonical spellings.
  The name \<^verbatim>\<open>broken.key\<close> stands for a lookup that fails with a status other than
  "not found", a path outside \<open>mem_files\<close> does not exist, and the host has no global
  or system file. \<open>mem_py\<close> decodes every C string but those holding the byte
  \<^verbatim>\<open>0xFF\<close>, and knows six visitors, told apart by the number of the callable; its
  program state is the number of calls made so far.
\<close>

type_synonym mem_table = "(string \<times> string) list"

definition mem_get_string :: "mem_table \<Rightarrow> string \<Rightarrow> int \<times> string" where
  "mem_get_string t k =
     (if k = ''broken.key'' then (- 1, [])
      else case map_of t k of None \<Rightarrow> (GIT_ENOTFOUND, []) | Some v \<Rightarrow> (0, v))"

definition digit_of :: "char \<Rightarrow> int option" where
  "digit_of c =
     (let n = (of_char c :: int) in if 48 \<le> n \<and> n \<le> 57 then Some (n - 48) else None)"

fun digits_value :: "string \<Rightarrow> int \<Rightarrow> int option" where
  "digits_value [] acc = Some acc"
| "digits_value (c # cs) acc =
     (case digit_of c of None \<Rightarrow> None | Some d \<Rightarrow> digits_value cs (10 * acc + d))"

definition mem_parse_int64 :: "string \<Rightarrow> int \<times> 64 word" where
  "mem_parse_int64 s =
     (case s of
        [] \<Rightarrow> (- 1, 0)
      | c # cs \<Rightarrow>
          if c = CHR ''-'' then
            (if cs = [] then (- 1, 0)
             else case digits_value cs 0 of
                    None \<Rightarrow> (- 1, 0)
                  | Some n \<Rightarrow> if n \<le> 2 ^ 63 then (0, word_of_int (- n)) else (- 1, 0))
          else
            (case digits_value s 0 of
               None \<Rightarrow> (- 1, 0)
             | Some n \<Rightarrow> if n < 2 ^ 63 then (0, word_of_int n) else (- 1, 0)))"

definition mem_parse_bool :: "string \<Rightarrow> int \<times> int" where
  "mem_parse_bool s =
     (if s \<in> {''true'', ''yes'', ''on'', ''1''} then (0, 1)
      else if s \<in> {''false'', ''no'', ''off'', ''0''} then (0, 0)
      else (- 1, 0))"

definition mem_delete_entry :: "mem_table \<Rightarrow> string \<Rightarrow> int \<times> mem_table" where
  "mem_delete_entry t k =
     (if map_of t k = None then (GIT_ENOTFOUND, t)
      else (0, filter (\<lambda>kv. fst kv \<noteq> k) t))"

definition mem_put :: "mem_table \<Rightarrow> string \<Rightarrow> string \<Rightarrow> int \<times> mem_table" where
  "mem_put t k v = (0, filter (\<lambda>kv. fst kv \<noteq> k) t @ [(k, v)])"

fun show_digits :: "nat \<Rightarrow> int \<Rightarrow> string" where
  "show_digits 0 n = []"
| "show_digits (Suc fuel) n =
     (if n < 10 then [char_of (48 + n)]
      else show_digits fuel (n div 10) @ [char_of (48 + n mod 10)])"

definition show_int64 :: "64 word \<Rightarrow> string" where
  "show_int64 w =
     (if sint w < 0 then CHR ''-'' # show_digits 20 (- sint w)
      else show_digits 20 (sint w))"

definition mem_files :: "(string \<times> mem_table) list" where
  "mem_files = [(''/repo/.git/config'', [(''core.bare'', ''false'')])]"

definition mem_lib :: "mem_table libgit2" where
  "mem_lib =
     \<lparr> git_config_new = (0, []),
       git_config_open_ondisk =
         (\<lambda>p. case map_of mem_files p of None \<Rightarrow> (GIT_ENOTFOUND, []) | Some t \<Rightarrow> (0, t)),
       git_config_find_global = (GIT_ENOTFOUND, []),
       git_config_find_system = (GIT_ENOTFOUND, []),
       git_config_get_string = mem_get_string,
       git_config_parse_int64 = mem_parse_int64,
       git_config_parse_bool = mem_parse_bool,
       git_config_delete_entry = mem_delete_entry,
       git_config_set_bool = (\<lambda>t k b. mem_put t k (if b \<noteq> 0 then ''true'' else ''false'')),
       git_config_set_int64 = (\<lambda>t k w. mem_put t k (show_int64 w)),
       git_config_set_string =
         (\<lambda>t k v. case v of None \<Rightarrow> (- 1, t) | Some s \<Rightarrow> mem_put t k s),
       config_entries = map (\<lambda>kv. \<lparr>name = fst kv, val = snd kv\<rparr>),
       multivar_entries =
         (\<lambda>t k regex.
            case regex of
              Some r \<Rightarrow> (- 1, [])
            | None \<Rightarrow>
                (let es = map (\<lambda>kv. \<lparr>name = fst kv, val = snd kv\<rparr>)
                            (filter (\<lambda>kv. fst kv = k) t)
                 in if es = [] then (GIT_ENOTFOUND, []) else (0, es))) \<rparr>"



definition mem_decode :: "string \<Rightarrow> py_obj option" where
  "mem_decode s = (if CHR 0xFF \<in> set s then None else Some (PyUnicode s))"

definition mem_call :: "py_obj \<Rightarrow> py_obj list \<Rightarrow> nat \<Rightarrow> call_result \<times> nat" where
  "mem_call f args n =
     (if f = PyFunction 0 then (Returns (PyLong 0), Suc n)
      else if f = PyFunction 1 then (Returns (PyLong (if n = 1 then 3 else 0)), Suc n)
      else if f = PyFunction 2 then (Returns (PyLong (- 1)), Suc n)
      else if f = PyFunction 3 then (Raises (PyExc_Exception 7), Suc n)
      else if f = PyFunction 4 then (Returns (PyLong (if n = 0 then 2 ^ 32 else 0)), Suc n)
      else if f = PyFunction 5 then (Returns (PyLong (2 ^ 64)), Suc n)
      else (Returns Py_None, Suc n))"

definition mem_py :: "nat python" where
  "mem_py = \<lparr> PyObject_CallObject = mem_call, to_unicode = mem_decode, Py_BuildValue_s = mem_decode \<rparr>"

definition sample :: mem_table where
  "sample = [(''a.one'', ''1''), (''a.yes'', ''yes''), (''a.str'', ''hello''),
             (''a.multi'', ''x1''), (''a.multi'', [CHR ''x'', CHR 0xFF]), (''a.multi'', ''z'')]"

definition five :: mem_table where
  "five = [(''e.k1'', ''v1''), (''e.k2'', ''v2''), (''e.k3'', ''v3''), (''e.k4'', ''v4''), (''e.k5'', ''v5'')]"

definition st0 :: "nat py_state" where
  "st0 = \<lparr> err_indicator = None, calls = [], heap = 0 \<rparr>"

section \<open>Properties\<close>

subsection \<open>The enumeration loop\<close>

lemma foreach_loop_append:
  "git_config_foreach_loop pre cb s = (0, s1) \<Longrightarrow>
   git_config_foreach_loop (pre @ es) cb s = git_config_foreach_loop es cb s1"
proof (induction pre arbitrary: s)
  case Nil
  then show ?case by simp
next
  case (Cons x xs)
  obtain r s' where step: "cb x s = (r, s')" by (cases "cb x s")
  with Cons.prems have "r = 0" and "git_config_foreach_loop xs cb s' = (0, s1)"
    by (auto split: if_splits)
  with step Cons.IH show ?case by simp
qed

lemma int_of_long_id: "- (2 ^ 31) \<le> r \<Longrightarrow> r < 2 ^ 31 \<Longrightarrow> int_of_long r = r"
  unfolding int_of_long_def by (simp add: sint_sbintrunc' signed_take_bit_int_eq_self)

lemma wrapper_returns:
  assumes "PyArg_ParseTuple_O_opt_O args = Some (f, payload)"
      and "Py_BuildValue_ss py (name e) (val e) payload = Some a"
      and "PyObject_CallObject py f a (heap st) = (Returns (PyLong r), h)"
      and "- (2 ^ 31) \<le> r" and "r < 2 ^ 31"
  shows "Config_foreach_callback_wrapper py args e st =
           (r, st\<lparr>calls := calls st @ [(f, a)], heap := h\<rparr>)"
proof -
  have long: "PyLong_AsLong (PyLong r) = (r, None)"
    using assms(4,5) by (simp add: PyLong_AsLong_def)
  from long assms(1-3) int_of_long_id[OF assms(4,5)] show ?thesis
    by (simp add: Config_foreach_callback_wrapper_def Let_def)
qed

lemma wrapper_raises:
  assumes "PyArg_ParseTuple_O_opt_O args = Some (f, payload)"
      and "Py_BuildValue_ss py (name e) (val e) payload = Some a"
      and "PyObject_CallObject py f a (heap st) = (Raises x, h)"
  shows "Config_foreach_callback_wrapper py args e st =
           (- 1, st\<lparr>calls := calls st @ [(f, a)], heap := h, err_indicator := Some x\<rparr>)"
  using assms by (simp add: Config_foreach_callback_wrapper_def)

lemma wrapper_zero_logs:
  assumes "PyArg_ParseTuple_O_opt_O args = Some (f, payload)"
      and "Config_foreach_callback_wrapper py args e st = (0, st')"
  shows "\<exists>a. Py_BuildValue_ss py (name e) (val e) payload = Some a \<and>
             calls st' = calls st @ [(f, a)]"
  using assms
  by (auto simp: Config_foreach_callback_wrapper_def Let_def
           split: option.splits prod.splits call_result.splits if_splits)

lemma foreach_loop_zero_logs:
  assumes "PyArg_ParseTuple_O_opt_O args = Some (f, payload)"
  shows "git_config_foreach_loop pre (Config_foreach_callback_wrapper py args) st = (0, st1) \<Longrightarrow>
         \<exists>as. map Some as = map (\<lambda>e. Py_BuildValue_ss py (name e) (val e) payload) pre \<and>
              calls st1 = calls st @ map (Pair f) as"
proof (induction pre arbitrary: st)
  case Nil
  then show ?case by simp
next
  case (Cons x xs)
  obtain r s' where step: "Config_foreach_callback_wrapper py args x st = (r, s')"
    by (cases "Config_foreach_callback_wrapper py args x st")
  with Cons.prems have r0: "r = 0"
    and rest: "git_config_foreach_loop xs (Config_foreach_callback_wrapper py args) s' = (0, st1)"
    by (auto split: if_splits)
  from wrapper_zero_logs[OF assms step[unfolded r0]]
  obtain a where a: "Py_BuildValue_ss py (name x) (val x) payload = Some a"
    and log: "calls s' = calls st @ [(f, a)]" by blast
  from Cons.IH[OF rest]
  obtain as where as: "map Some as = map (\<lambda>e. Py_BuildValue_ss py (name e) (val e) payload) xs"
    and log': "calls st1 = calls s' @ map (Pair f) as" by blast
  have "map Some (a # as) = map (\<lambda>e. Py_BuildValue_ss py (name e) (val e) payload) (x # xs)"
    using a as by simp
  moreover have "calls st1 = calls st @ map (Pair f) (a # as)"
    using log log' by simp
  ultimately show ?case by blast
qed

lemma Config_foreach_unfold:
  assumes "PyArg_ParseTuple_O_opt_O args = Some (PyFunction f, payload)"
  shows "Config_foreach lib py config args st =
           (let (ret, st') = git_config_foreach_loop (config_entries lib config)
                               (Config_foreach_callback_wrapper py args) st
            in (Some (PyLong ret), st'))"
  using assms by (simp add: Config_foreach_def PyCallable_Check_def git_config_foreach_def)

text \<open>
  The enumeration for results that fit a C \<^verbatim>\<open>int\<close>. \<^verbatim>\<open>foreach\<close> calls the visitor on
  the entries in enumeration order and halts at the first call whose result is a non-zero
  integer \<open>r\<close> with \<open>-2^31 \<le> r < 2^31\<close>: \<open>r\<close> is the result of \<^verbatim>\<open>foreach\<close>, and no
  later entry is visited. Here \<open>pre\<close> are the entries before \<open>e\<close>, on which every call gave 0
  to libgit2 (the loop over \<open>pre\<close> ends with 0, in the state \<open>st1\<close>), and the visitor
  returns \<open>r\<close> on \<open>e\<close>. The state after \<^verbatim>\<open>foreach\<close> is the state right after that call:
  the log of calls holds one call for each entry of \<open>pre\<close>, in order, then the call on
  \<open>e\<close>, and nothing else.
\<close>

lemma foreach_halts_at_first_nonzero:
  assumes parse: "PyArg_ParseTuple_O_opt_O args = Some (PyFunction f, payload)"
      and entries: "config_entries lib config = pre @ e # post"
      and zeros: "git_config_foreach_loop pre (Config_foreach_callback_wrapper py args) st = (0, st1)"
      and build: "Py_BuildValue_ss py (name e) (val e) payload = Some a"
      and call: "PyObject_CallObject py (PyFunction f) a (heap st1) = (Returns (PyLong r), h)"
      and nonzero: "r \<noteq> 0"
      and range: "- (2 ^ 31) \<le> r" "r < 2 ^ 31"
  shows "Config_foreach lib py config args st =
           (Some (PyLong r), st1\<lparr>calls := calls st1 @ [(PyFunction f, a)], heap := h\<rparr>)
         \<and> (\<exists>as. map Some as = map (\<lambda>x. Py_BuildValue_ss py (name x) (val x) payload) pre \<and>
                  calls st1 = calls st @ map (Pair (PyFunction f)) as)"
proof -
  have step: "Config_foreach_callback_wrapper py args e st1 =
                (r, st1\<lparr>calls := calls st1 @ [(PyFunction f, a)], heap := h\<rparr>)"
    by (rule wrapper_returns[OF parse build call range])
  have "git_config_foreach_loop (pre @ e # post) (Config_foreach_callback_wrapper py args) st =
          git_config_foreach_loop (e # post) (Config_foreach_callback_wrapper py args) st1"
    by (rule foreach_loop_append[OF zeros])
  also have "\<dots> = (r, st1\<lparr>calls := calls st1 @ [(PyFunction f, a)], heap := h\<rparr>)"
    using step nonzero by simp
  finally have "Config_foreach lib py config args st =
           (Some (PyLong r), st1\<lparr>calls := calls st1 @ [(PyFunction f, a)], heap := h\<rparr>)"
    using entries by (simp add: Config_foreach_unfold[OF parse])
  with foreach_loop_zero_logs[OF parse zeros] show ?thesis by simp
qed

lemmas mem_simps =
  mem_lib_def mem_py_def mem_call_def mem_decode_def mem_get_string_def mem_parse_int64_def
  mem_parse_bool_def mem_delete_entry_def mem_put_def digit_of_def five_def sample_def st0_def
  mem_files_def show_int64_def

lemmas cfg_simps =
  Config_foreach_def Config_foreach_callback_wrapper_def PyArg_ParseTuple_O_opt_O_def
  PyCallable_Check_def git_config_foreach_def Py_BuildValue_ss_def PyLong_AsLong_def
  int_of_long_def

lemma five_run1: "git_config_foreach_loop [\<lparr>name = ''e.k1'', val = ''v1''\<rparr>]
     (Config_foreach_callback_wrapper mem_py [PyFunction 1]) st0 =
     (0, \<lparr>err_indicator = None, calls = [(PyFunction 1, [PyUnicode ''e.k1'', PyUnicode ''v1''])], heap = 1\<rparr>)"
  by (simp add: mem_simps cfg_simps)

lemma foreach_halts_at_first_nonzero_example:
  "Config_foreach mem_lib mem_py five [PyFunction 1] st0 =
     (Some (PyLong 3),
      \<lparr>err_indicator = None,
       calls = [(PyFunction 1, [PyUnicode ''e.k1'', PyUnicode ''v1'']),
                (PyFunction 1, [PyUnicode ''e.k2'', PyUnicode ''v2''])],
       heap = 2\<rparr>)"
proof -
  have parse: "PyArg_ParseTuple_O_opt_O [PyFunction 1] = Some (PyFunction 1, None)"
    by (simp add: PyArg_ParseTuple_O_opt_O_def)
  have entries: "config_entries mem_lib five =
      [\<lparr>name = ''e.k1'', val = ''v1''\<rparr>] @ \<lparr>name = ''e.k2'', val = ''v2''\<rparr> #
      [\<lparr>name = ''e.k3'', val = ''v3''\<rparr>, \<lparr>name = ''e.k4'', val = ''v4''\<rparr>,
       \<lparr>name = ''e.k5'', val = ''v5''\<rparr>]"
    by (simp add: mem_lib_def five_def)
  have build: "Py_BuildValue_ss mem_py (name \<lparr>name = ''e.k2'', val = ''v2''\<rparr>)
      (val \<lparr>name = ''e.k2'', val = ''v2''\<rparr>) None = Some [PyUnicode ''e.k2'', PyUnicode ''v2'']"
    by (simp add: Py_BuildValue_ss_def mem_py_def mem_decode_def)
  have call: "PyObject_CallObject mem_py (PyFunction 1) [PyUnicode ''e.k2'', PyUnicode ''v2'']
      (heap \<lparr>err_indicator = None, calls = [(PyFunction 1, [PyUnicode ''e.k1'', PyUnicode ''v1''])], heap = 1\<rparr>)
      = (Returns (PyLong 3), 2)"
    by (simp add: mem_py_def mem_call_def)
  from foreach_halts_at_first_nonzero[OF parse entries five_run1 build call]
  show ?thesis by simp
qed


text \<open>
  Claim C3 says that \<^verbatim>\<open>foreach\<close> halts at the first call of the visitor that returns a
  non-zero integer, and returns that integer; so does the docstring of
  \<^verbatim>\<open>Config_foreach\<close>. The source does otherwise for an integer that does not fit a C
  \<^verbatim>\<open>int\<close>: the visitor \<open>PyFunction 4\<close> returns \<open>2^32\<close> on the first entry, the wrapper
  stores it in an \<^verbatim>\<open>int\<close> and hands 0 to libgit2, all five entries are visited, and
  \<^verbatim>\<open>foreach\<close> returns 0. The visitor \<open>PyFunction 5\<close> returns \<open>2^64\<close>, which no
  \<^verbatim>\<open>long\<close> holds: \<^verbatim>\<open>foreach\<close> halts and returns \<open>-1\<close>.
\<close>

theorem foreach_wide_result_not_returned:
  "PyObject_CallObject mem_py (PyFunction 4) [PyUnicode ''e.k1'', PyUnicode ''v1''] 0 =
     (Returns (PyLong 4294967296), 1)
   \<and> Config_foreach mem_lib mem_py five [PyFunction 4] st0 =
     (Some (PyLong 0),
      \<lparr>err_indicator = None,
       calls = [(PyFunction 4, [PyUnicode ''e.k1'', PyUnicode ''v1'']),
                (PyFunction 4, [PyUnicode ''e.k2'', PyUnicode ''v2'']),
                (PyFunction 4, [PyUnicode ''e.k3'', PyUnicode ''v3'']),
                (PyFunction 4, [PyUnicode ''e.k4'', PyUnicode ''v4'']),
                (PyFunction 4, [PyUnicode ''e.k5'', PyUnicode ''v5''])],
       heap = 5\<rparr>)
   \<and> PyObject_CallObject mem_py (PyFunction 5) [PyUnicode ''e.k1'', PyUnicode ''v1''] 0 =
     (Returns (PyLong 18446744073709551616), 1)
   \<and> Config_foreach mem_lib mem_py five [PyFunction 5] st0 =
     (Some (PyLong (- 1)),
      \<lparr>err_indicator = Some PyExc_OverflowError,
       calls = [(PyFunction 5, [PyUnicode ''e.k1'', PyUnicode ''v1''])],
       heap = 1\<rparr>)"
  by (simp add: Config_foreach_def Config_foreach_callback_wrapper_def PyArg_ParseTuple_O_opt_O_def
        PyCallable_Check_def git_config_foreach_def Py_BuildValue_ss_def PyLong_AsLong_def
        int_of_long_def mem_lib_def mem_py_def mem_call_def mem_decode_def five_def st0_def)

subsection \<open>Typed lookup\<close>

text \<open>
  Claim C1. For a key whose lookup succeeds with the stored text \<open>v\<close>, \<^verbatim>\<open>get\<close> coerces
  \<open>v\<close> in the fixed order integer, boolean, raw string: if \<open>int64-parse\<close> accepts \<open>v\<close> the
  result is that integer, whatever \<open>bool-parse\<close> says of \<open>v\<close>; otherwise, if
  \<open>bool-parse\<close> accepts \<open>v\<close> the result is that boolean; otherwise it is the string
  object that \<^verbatim>\<open>to_unicode\<close> makes of the raw text. In particular the text \<^verbatim>\<open>"1"\<close>,
  which \<open>int64-parse\<close> reads as 1, comes back as the integer 1 and never as a boolean.
\<close>

theorem getitem_coercion_order:
  assumes lookup: "git_config_get_string lib config k = (err, v)"
      and found: "0 \<le> err"
  shows "(git_config_parse_int64 lib v = (0, n) \<longrightarrow>
            Config_getitem lib py config (PyUnicode k) = (Some (PyLong (sint n)), None))
       \<and> (fst (git_config_parse_int64 lib v) \<noteq> 0 \<longrightarrow> git_config_parse_bool lib v = (0, b) \<longrightarrow>
            Config_getitem lib py config (PyUnicode k) = (Some (PyBool (b \<noteq> 0)), None))
       \<and> (fst (git_config_parse_int64 lib v) \<noteq> 0 \<longrightarrow> fst (git_config_parse_bool lib v) \<noteq> 0 \<longrightarrow>
            Config_getitem lib py config (PyUnicode k) =
              (case to_unicode py v of
                 None \<Rightarrow> (None, Some PyExc_UnicodeDecodeError)
               | Some s \<Rightarrow> (Some s, None)))
       \<and> (v = ''1'' \<longrightarrow> git_config_parse_int64 lib ''1'' = (0, 1) \<longrightarrow>
            Config_getitem lib py config (PyUnicode k) = (Some (PyLong 1), None)
            \<and> (\<forall>t. fst (Config_getitem lib py config (PyUnicode k)) \<noteq> Some (PyBool t)))"
proof -
  have not_neg: "\<not> err < 0" using found by simp
  have base: "Config_getitem lib py config (PyUnicode k) =
      (if fst (git_config_parse_int64 lib v) = 0 then
         (Some (PyLong (sint (snd (git_config_parse_int64 lib v)))), None)
       else if fst (git_config_parse_bool lib v) = 0 then
         (Some (PyBool (snd (git_config_parse_bool lib v) \<noteq> 0)), None)
       else (case to_unicode py v of
               None \<Rightarrow> (None, Some PyExc_UnicodeDecodeError)
             | Some s \<Rightarrow> (Some s, None)))"
    using lookup not_neg by (simp add: Config_getitem_def py_str_to_c_str_def)
  have c1: "git_config_parse_int64 lib v = (0, n) \<longrightarrow>
            Config_getitem lib py config (PyUnicode k) = (Some (PyLong (sint n)), None)"
    by (simp add: base)
  have c2: "fst (git_config_parse_int64 lib v) \<noteq> 0 \<longrightarrow> git_config_parse_bool lib v = (0, b) \<longrightarrow>
            Config_getitem lib py config (PyUnicode k) = (Some (PyBool (b \<noteq> 0)), None)"
    by (simp add: base)
  have c3: "fst (git_config_parse_int64 lib v) \<noteq> 0 \<longrightarrow> fst (git_config_parse_bool lib v) \<noteq> 0 \<longrightarrow>
            Config_getitem lib py config (PyUnicode k) =
              (case to_unicode py v of
                 None \<Rightarrow> (None, Some PyExc_UnicodeDecodeError)
               | Some s \<Rightarrow> (Some s, None))"
    by (simp add: base)
  have c4: "v = ''1'' \<longrightarrow> git_config_parse_int64 lib ''1'' = (0, 1) \<longrightarrow>
            Config_getitem lib py config (PyUnicode k) = (Some (PyLong 1), None)
            \<and> (\<forall>t. fst (Config_getitem lib py config (PyUnicode k)) \<noteq> Some (PyBool t))"
    by (simp add: base)
  from c1 c2 c3 c4 show ?thesis by blast
qed

lemma sample_one: "git_config_get_string mem_lib sample ''a.one'' = (0, ''1'')"
  by (simp add: mem_lib_def mem_get_string_def sample_def)
lemma sample_yes: "git_config_get_string mem_lib sample ''a.yes'' = (0, ''yes'')"
  by (simp add: mem_lib_def mem_get_string_def sample_def)
lemma sample_str: "git_config_get_string mem_lib sample ''a.str'' = (0, ''hello'')"
  by (simp add: mem_lib_def mem_get_string_def sample_def)
lemma parse_one: "git_config_parse_int64 mem_lib ''1'' = (0, 1)"
  by (simp add: mem_lib_def mem_parse_int64_def digit_of_def)
lemma parse_bool_one: "git_config_parse_bool mem_lib ''1'' = (0, 1)"
  by (simp add: mem_lib_def mem_parse_bool_def)
lemma parse_yes: "fst (git_config_parse_int64 mem_lib ''yes'') \<noteq> 0"
   "git_config_parse_bool mem_lib ''yes'' = (0, 1)"
  by (simp_all add: mem_lib_def mem_parse_int64_def mem_parse_bool_def digit_of_def)
lemma parse_hello: "fst (git_config_parse_int64 mem_lib ''hello'') \<noteq> 0"
   "fst (git_config_parse_bool mem_lib ''hello'') \<noteq> 0"
   "to_unicode mem_py ''hello'' = Some (PyUnicode ''hello'')"
  by (simp_all add: mem_lib_def mem_py_def mem_decode_def mem_parse_int64_def mem_parse_bool_def digit_of_def)

theorem getitem_coercion_order_witness:
  "Config_getitem mem_lib mem_py sample (PyUnicode ''a.one'') = (Some (PyLong 1), None)
   \<and> git_config_parse_bool mem_lib ''1'' = (0, 1)
   \<and> Config_getitem mem_lib mem_py sample (PyUnicode ''a.yes'') = (Some (PyBool True), None)
   \<and> Config_getitem mem_lib mem_py sample (PyUnicode ''a.str'') = (Some (PyUnicode ''hello''), None)"
proof -
  have one: "Config_getitem mem_lib mem_py sample (PyUnicode ''a.one'') = (Some (PyLong 1), None)"
    using getitem_coercion_order[OF sample_one, of _ mem_py] parse_one by simp
  have yes: "Config_getitem mem_lib mem_py sample (PyUnicode ''a.yes'') = (Some (PyBool True), None)"
    using getitem_coercion_order[OF sample_yes, of _ mem_py 1] parse_yes by simp
  have str: "Config_getitem mem_lib mem_py sample (PyUnicode ''a.str'') = (Some (PyUnicode ''hello''), None)"
    using getitem_coercion_order[OF sample_str, of _ mem_py] parse_hello by simp
  from one yes str parse_bool_one show ?thesis by simp
qed


text \<open>
  Claim C6. Let \<open>err\<close> be the status of the lookup of \<open>k\<close>. \<^verbatim>\<open>get\<close> fails with
  \<^verbatim>\<open>KeyError\<close> (carrying the key) exactly when \<open>err\<close> is "not found", that is, when the
  key is absent in every backend; for every other negative status it fails with the
  exception that \<^verbatim>\<open>Error_set(err)\<close> installs, which is of the backend kind and not of
  the "not found" kind.
\<close>

theorem getitem_error_classes:
  assumes lookup: "git_config_get_string lib config k = (err, v)"
  shows "(err = GIT_ENOTFOUND \<longrightarrow>
            Config_getitem lib py config (PyUnicode k) = (None, Some (PyExc_KeyError (PyUnicode k))))
       \<and> (err < 0 \<longrightarrow> err \<noteq> GIT_ENOTFOUND \<longrightarrow>
            Config_getitem lib py config (PyUnicode k) = (None, Some (Error_set err))
            \<and> error_kind (Error_set err) = BackendError)
       \<and> ((\<exists>x. snd (Config_getitem lib py config (PyUnicode k)) = Some (PyExc_KeyError x))
            \<longleftrightarrow> err = GIT_ENOTFOUND)
       \<and> ((\<exists>e. snd (Config_getitem lib py config (PyUnicode k)) = Some e \<and> error_kind e = NotFound)
            \<longleftrightarrow> err = GIT_ENOTFOUND)"
proof -
  have neg: "GIT_ENOTFOUND < 0" by (simp add: GIT_ENOTFOUND_def)
  have a: "err = GIT_ENOTFOUND \<longrightarrow>
            Config_getitem lib py config (PyUnicode k) = (None, Some (PyExc_KeyError (PyUnicode k)))"
    using lookup neg by (simp add: Config_getitem_def py_str_to_c_str_def)
  have b: "err < 0 \<longrightarrow> err \<noteq> GIT_ENOTFOUND \<longrightarrow>
            Config_getitem lib py config (PyUnicode k) = (None, Some (Error_set err))
            \<and> error_kind (Error_set err) = BackendError"
    using lookup by (simp add: Config_getitem_def py_str_to_c_str_def error_kind_def)
  have ind: "snd (Config_getitem lib py config (PyUnicode k)) =
      (if err < 0 then (if err = GIT_ENOTFOUND then Some (PyExc_KeyError (PyUnicode k))
                        else Some (Error_set err))
       else if fst (git_config_parse_int64 lib v) = 0 then None
       else if fst (git_config_parse_bool lib v) = 0 then None
       else (case to_unicode py v of None \<Rightarrow> Some PyExc_UnicodeDecodeError | Some s \<Rightarrow> None))"
    using lookup by (simp add: Config_getitem_def py_str_to_c_str_def split: option.splits)
  have c: "(\<exists>x. snd (Config_getitem lib py config (PyUnicode k)) = Some (PyExc_KeyError x))
            \<longleftrightarrow> err = GIT_ENOTFOUND"
    using neg by (auto simp: ind split: option.splits if_splits)
  have d: "(\<exists>e. snd (Config_getitem lib py config (PyUnicode k)) = Some e \<and> error_kind e = NotFound)
            \<longleftrightarrow> err = GIT_ENOTFOUND"
    using neg by (auto simp: ind error_kind_def split: option.splits if_splits)
  from a b c d show ?thesis by blast
qed

lemma sample_none: "git_config_get_string mem_lib sample ''a.none'' = (GIT_ENOTFOUND, [])"
  by (simp add: mem_lib_def mem_get_string_def sample_def)
lemma sample_broken: "git_config_get_string mem_lib sample ''broken.key'' = (- 1, [])"
  by (simp add: mem_lib_def mem_get_string_def sample_def)

theorem getitem_error_classes_witness:
  "Config_getitem mem_lib mem_py sample (PyUnicode ''a.none'') =
     (None, Some (PyExc_KeyError (PyUnicode ''a.none'')))
   \<and> Config_getitem mem_lib mem_py sample (PyUnicode ''broken.key'') = (None, Some (Error_set (- 1)))
   \<and> error_kind (Error_set (- 1)) = BackendError"
  using getitem_error_classes[OF sample_none, of mem_py]
        getitem_error_classes[OF sample_broken, of mem_py]
  by (simp add: GIT_ENOTFOUND_def)

text \<open>
  Claim C9, as amended. \<^verbatim>\<open>contains\<close> returns true if and only if the lookup of the
  key succeeds, that is, if and only if \<^verbatim>\<open>get\<close> succeeds or fails only because the
  stored text cannot be made into a Python string; whenever the text can be made into a
  string, \<^verbatim>\<open>contains\<close> is true if and only if \<^verbatim>\<open>get\<close> succeeds, and whenever
  \<^verbatim>\<open>get\<close> succeeds \<^verbatim>\<open>contains\<close> is true. \<^verbatim>\<open>contains\<close> returns false exactly when the
  lookup reports "not found", and for any other negative status it fails with the
  exception of \<^verbatim>\<open>Error_set\<close> instead of returning false.
\<close>

theorem contains_iff_lookup_succeeds:
  assumes lookup: "git_config_get_string lib config k = (err, v)"
  shows "(fst (Config_contains lib config (PyUnicode k)) = 1
            \<longleftrightarrow> (fst (Config_getitem lib py config (PyUnicode k)) \<noteq> None
                 \<or> Config_getitem lib py config (PyUnicode k) =
                     (None, Some PyExc_UnicodeDecodeError)))
       \<and> (fst (Config_getitem lib py config (PyUnicode k)) \<noteq> None \<longrightarrow>
            fst (Config_contains lib config (PyUnicode k)) = 1)
       \<and> (to_unicode py v \<noteq> None \<longrightarrow>
            (fst (Config_contains lib config (PyUnicode k)) = 1
               \<longleftrightarrow> fst (Config_getitem lib py config (PyUnicode k)) \<noteq> None))
       \<and> (fst (Config_contains lib config (PyUnicode k)) = 0 \<longleftrightarrow> err = GIT_ENOTFOUND)
       \<and> (err < 0 \<and> err \<noteq> GIT_ENOTFOUND \<longrightarrow>
            Config_contains lib config (PyUnicode k) = (- 1, Some (Error_set err)))"
proof -
  have neg: "GIT_ENOTFOUND < 0" by (simp add: GIT_ENOTFOUND_def)
  have cont: "Config_contains lib config (PyUnicode k) =
     (if err < 0 then (if err = GIT_ENOTFOUND then (0, None) else (- 1, Some (Error_set err)))
      else (1, None))"
    using lookup by (simp add: Config_contains_def py_str_to_c_str_def)
  have get: "Config_getitem lib py config (PyUnicode k) =
      (if err < 0 then
         (if err = GIT_ENOTFOUND then (None, Some (PyExc_KeyError (PyUnicode k)))
          else (None, Some (Error_set err)))
       else if fst (git_config_parse_int64 lib v) = 0 then
         (Some (PyLong (sint (snd (git_config_parse_int64 lib v)))), None)
       else if fst (git_config_parse_bool lib v) = 0 then
         (Some (PyBool (snd (git_config_parse_bool lib v) \<noteq> 0)), None)
       else (case to_unicode py v of
               None \<Rightarrow> (None, Some PyExc_UnicodeDecodeError)
             | Some s \<Rightarrow> (Some s, None)))"
    using lookup by (simp add: Config_getitem_def py_str_to_c_str_def)
  have found: "\<not> err < 0 \<longleftrightarrow>
      (fst (Config_getitem lib py config (PyUnicode k)) \<noteq> None
       \<or> Config_getitem lib py config (PyUnicode k) = (None, Some PyExc_UnicodeDecodeError))"
    by (cases "to_unicode py v") (auto simp: get)
  have succ: "fst (Config_getitem lib py config (PyUnicode k)) \<noteq> None \<longrightarrow> \<not> err < 0"
    by (auto simp: get)
  have mat: "to_unicode py v \<noteq> None \<longrightarrow>
      (\<not> err < 0 \<longleftrightarrow> fst (Config_getitem lib py config (PyUnicode k)) \<noteq> None)"
    by (auto simp: get)
  have one: "fst (Config_contains lib config (PyUnicode k)) = 1 \<longleftrightarrow> \<not> err < 0"
    using neg by (auto simp: cont)
  have a: "fst (Config_contains lib config (PyUnicode k)) = 1
            \<longleftrightarrow> (fst (Config_getitem lib py config (PyUnicode k)) \<noteq> None
                 \<or> Config_getitem lib py config (PyUnicode k) =
                     (None, Some PyExc_UnicodeDecodeError))"
    using one found by blast
  have a': "fst (Config_getitem lib py config (PyUnicode k)) \<noteq> None \<longrightarrow>
            fst (Config_contains lib config (PyUnicode k)) = 1"
    using one succ by blast
  have a'': "to_unicode py v \<noteq> None \<longrightarrow>
            (fst (Config_contains lib config (PyUnicode k)) = 1
               \<longleftrightarrow> fst (Config_getitem lib py config (PyUnicode k)) \<noteq> None)"
    using one mat by blast
  have b: "fst (Config_contains lib config (PyUnicode k)) = 0 \<longleftrightarrow> err = GIT_ENOTFOUND"
    using neg by (auto simp: cont)
  have c: "err < 0 \<and> err \<noteq> GIT_ENOTFOUND \<longrightarrow>
            Config_contains lib config (PyUnicode k) = (- 1, Some (Error_set err))"
    by (simp add: cont)
  from a a' a'' b c show ?thesis by blast
qed

theorem contains_iff_lookup_succeeds_witness:
  "fst (Config_contains mem_lib sample (PyUnicode ''a.str'')) = 1
   \<and> fst (Config_getitem mem_lib mem_py sample (PyUnicode ''a.str'')) \<noteq> None
   \<and> fst (Config_contains mem_lib sample (PyUnicode ''a.none'')) = 0
   \<and> fst (Config_getitem mem_lib mem_py sample (PyUnicode ''a.none'')) = None
   \<and> Config_contains mem_lib sample (PyUnicode ''broken.key'') = (- 1, Some (Error_set (- 1)))"
proof -
  have m1: "to_unicode mem_py ''hello'' \<noteq> None"
    by (simp add: mem_py_def mem_decode_def)
  have c1: "fst (Config_contains mem_lib sample (PyUnicode ''a.str'')) = 1"
    by (simp add: Config_contains_def py_str_to_c_str_def sample_str)
  have g1: "fst (Config_getitem mem_lib mem_py sample (PyUnicode ''a.str'')) \<noteq> None"
    using contains_iff_lookup_succeeds[OF sample_str, of mem_py] m1 c1 by blast
  have c2: "fst (Config_contains mem_lib sample (PyUnicode ''a.none'')) = 0"
    using contains_iff_lookup_succeeds[OF sample_none, of mem_py] by blast
  have g2: "fst (Config_getitem mem_lib mem_py sample (PyUnicode ''a.none'')) = None"
    using contains_iff_lookup_succeeds[OF sample_none, of mem_py] c2 by auto
  have c3: "Config_contains mem_lib sample (PyUnicode ''broken.key'') = (- 1, Some (Error_set (- 1)))"
    using contains_iff_lookup_succeeds[OF sample_broken, of mem_py]
    by (simp add: GIT_ENOTFOUND_def)
  from c1 g1 c2 g2 c3 show ?thesis by blast
qed

text \<open>
  Claim C9 as stated fails for a stored text that cannot be made into a Python string:
  on the table with the one entry \<^verbatim>\<open>a.bad\<close>, whose value holds the byte \<^verbatim>\<open>0xFF\<close>,
  \<^verbatim>\<open>contains\<close> is true and \<^verbatim>\<open>get\<close> fails, with a \<^verbatim>\<open>UnicodeDecodeError\<close>.
\<close>

theorem contains_true_getitem_fails_counterexample:
  "Config_contains mem_lib [(''a.bad'', [CHR ''x'', CHR 0xFF])] (PyUnicode ''a.bad'') = (1, None)
   \<and> Config_getitem mem_lib mem_py [(''a.bad'', [CHR ''x'', CHR 0xFF])] (PyUnicode ''a.bad'') =
       (None, Some PyExc_UnicodeDecodeError)"
  by (simp add: Config_contains_def Config_getitem_def py_str_to_c_str_def mem_lib_def
        mem_py_def mem_get_string_def mem_parse_int64_def mem_parse_bool_def mem_decode_def
        digit_of_def)

subsection \<open>Assignment and deletion of entries\<close>






text \<open>
  Claim C8, as amended. \<^verbatim>\<open>set\<close> with a value dispatches on the type of the value, and
  tests for a boolean before it tests for an integer. A boolean goes to the boolean writer
  \<^verbatim>\<open>git_config_set_bool\<close> with its truth value, although \<^verbatim>\<open>PyLong_Check\<close> holds of it
  too, so it is never taken for an integer; an integer that fits 64 bits goes to the
  integer writer \<^verbatim>\<open>git_config_set_int64\<close> with its value; a text string goes to the
  string writer \<^verbatim>\<open>git_config_set_string\<close> with its text. The call succeeds exactly when
  the writer does.
\<close>

theorem setitem_dispatch_on_type:
  "Config_setitem lib config (PyUnicode k) (Some (PyBool b)) =
     (let (err, config') = git_config_set_bool lib config k (if b then 1 else 0)
      in if err < 0 then (- 1, Some (Error_set err), config') else (0, None, config'))
   \<and> PyLong_Check (PyBool b)
   \<and> (- (2 ^ 63) \<le> n \<and> n < 2 ^ 63 \<longrightarrow>
        Config_setitem lib config (PyUnicode k) (Some (PyLong n)) =
          (let (err, config') = git_config_set_int64 lib config k (word_of_int n)
           in if err < 0 then (- 1, Some (Error_set err), config') else (0, None, config'))
        \<and> sint (word_of_int n :: 64 word) = n)
   \<and> Config_setitem lib config (PyUnicode k) (Some (PyUnicode s)) =
       (let (err, config') = git_config_set_string lib config k (Some s)
        in if err < 0 then (- 1, Some (Error_set err), config') else (0, None, config'))"
proof -
  have a: "Config_setitem lib config (PyUnicode k) (Some (PyBool b)) =
     (let (err, config') = git_config_set_bool lib config k (if b then 1 else 0)
      in if err < 0 then (- 1, Some (Error_set err), config') else (0, None, config'))"
    by (simp add: Config_setitem_def py_str_to_c_str_def PyBool_Check_def PyObject_IsTrue_def
             split: prod.splits)
  have a': "PyLong_Check (PyBool b)"
    by (simp add: PyLong_Check_def)
  have b: "- (2 ^ 63) \<le> n \<and> n < 2 ^ 63 \<longrightarrow>
        Config_setitem lib config (PyUnicode k) (Some (PyLong n)) =
          (let (err, config') = git_config_set_int64 lib config k (word_of_int n)
           in if err < 0 then (- 1, Some (Error_set err), config') else (0, None, config'))
        \<and> sint (word_of_int n :: 64 word) = n"
    by (simp add: Config_setitem_def py_str_to_c_str_def PyBool_Check_def PyLong_Check_def
                  PyLong_AsLong_def sint_sbintrunc' signed_take_bit_int_eq_self
             split: prod.splits)
  have c: "Config_setitem lib config (PyUnicode k) (Some (PyUnicode s)) =
       (let (err, config') = git_config_set_string lib config k (Some s)
        in if err < 0 then (- 1, Some (Error_set err), config') else (0, None, config'))"
    by (simp add: Config_setitem_def py_str_to_c_str_def PyBool_Check_def PyLong_Check_def Let_def
             split: prod.splits)
  from a a' b c show ?thesis by blast
qed

theorem setitem_dispatch_on_type_witness:
  "Config_setitem mem_lib [] (PyUnicode ''a.b'') (Some (PyBool True)) = (0, None, [(''a.b'', ''true'')])
   \<and> Config_setitem mem_lib [] (PyUnicode ''a.b'') (Some (PyLong 1)) = (0, None, [(''a.b'', ''1'')])
   \<and> Config_setitem mem_lib [] (PyUnicode ''a.b'') (Some (PyUnicode ''x y'')) = (0, None, [(''a.b'', ''x y'')])"
proof -
  have sb: "git_config_set_bool mem_lib [] ''a.b'' 1 = (0, [(''a.b'', ''true'')])"
    by (simp add: mem_lib_def mem_put_def)
  have si: "git_config_set_int64 mem_lib [] ''a.b'' (word_of_int 1) = (0, [(''a.b'', ''1'')])"
    by code_simp
  have ss: "git_config_set_string mem_lib [] ''a.b'' (Some ''x y'') = (0, [(''a.b'', ''x y'')])"
    by (simp add: mem_lib_def mem_put_def)
  have rng: "- (2 ^ 63) \<le> (1::int) \<and> (1::int) < 2 ^ 63" by simp
  from setitem_dispatch_on_type[of mem_lib "[]" "''a.b''" True 1 "''x y''"]
       sb si ss rng
  show ?thesis by simp
qed

text \<open>
  Claim C8 as stated fails for a value that the conversion to C rejects, since the source
  checks neither conversion. The integer \<open>2^63\<close> does not fit a \<^verbatim>\<open>long\<close>:
  \<^verbatim>\<open>PyLong_AsLong\<close> gives \<open>-1\<close>, which is written, as the text \<^verbatim>\<open>"-1"\<close>, and the call
  reports success with the \<^verbatim>\<open>OverflowError\<close> pending. An object that is no boolean, no
  integer and no text reaches the string writer as \<^verbatim>\<open>NULL\<close>, and nothing is written.
\<close>

theorem setitem_unchecked_conversion_counterexample:
  "Config_setitem mem_lib [] (PyUnicode ''a.b'') (Some (PyLong 9223372036854775808)) =
     (0, Some PyExc_OverflowError, [(''a.b'', ''-1'')])
   \<and> Config_setitem mem_lib [] (PyUnicode ''a.b'') (Some (PyObject 0)) =
     (- 1, Some (Error_set (- 1)), [])"
proof -
  have si: "git_config_set_int64 mem_lib [] ''a.b'' (word_of_int (- 1)) = (0, [(''a.b'', ''-1'')])"
    by code_simp
  have a: "Config_setitem mem_lib [] (PyUnicode ''a.b'') (Some (PyLong 9223372036854775808)) =
     (0, Some PyExc_OverflowError, [(''a.b'', ''-1'')])"
    using si
    by (simp add: Config_setitem_def py_str_to_c_str_def PyBool_Check_def PyLong_Check_def
          PyLong_AsLong_def)
  have b: "Config_setitem mem_lib [] (PyUnicode ''a.b'') (Some (PyObject 0)) =
     (- 1, Some (Error_set (- 1)), [])"
    by (simp add: Config_setitem_def py_str_to_c_str_def PyBool_Check_def PyLong_Check_def
          mem_lib_def)
  from a b show ?thesis by simp
qed

subsection \<open>Opening and discovery\<close>

text \<open>
  Claim C5, as amended. When the backend reports that the path does not exist,
  \<^verbatim>\<open>open(path)\<close> fails with \<^verbatim>\<open>IOError\<close>, and every other failure of the backend is
  raised through \<^verbatim>\<open>Error_set\<close>; \<^verbatim>\<open>discoverGlobal()\<close> on a host without a global file
  fails with \<^verbatim>\<open>IOError\<close> as well, and with the exception of \<^verbatim>\<open>Error_set\<close> when the
  discovery fails in another way. \<^verbatim>\<open>IOError\<close> is of the I/O kind.
\<close>

theorem open_not_found_raises_IOError:
  "(fst (git_config_open_ondisk lib p) = GIT_ENOTFOUND \<longrightarrow>
      Config_init lib [PyUnicode p] None = (- 1, Some PyExc_IOError, None))
   \<and> (fst (git_config_open_ondisk lib p) < 0 \<and> fst (git_config_open_ondisk lib p) \<noteq> GIT_ENOTFOUND \<longrightarrow>
      Config_init lib [PyUnicode p] None =
        (- 1, Some (Error_set (fst (git_config_open_ondisk lib p))), None))
   \<and> (fst (git_config_find_global lib) = GIT_ENOTFOUND \<longrightarrow>
      Config_get_global_config lib = (None, Some PyExc_IOError))
   \<and> (fst (git_config_find_global lib) < 0 \<and> fst (git_config_find_global lib) \<noteq> GIT_ENOTFOUND \<longrightarrow>
      Config_get_global_config lib = (None, Some (Error_set (fst (git_config_find_global lib)))))
   \<and> error_kind PyExc_IOError = IOError"
proof -
  have neg: "GIT_ENOTFOUND < 0" by (simp add: GIT_ENOTFOUND_def)
  have a: "fst (git_config_open_ondisk lib p) = GIT_ENOTFOUND \<longrightarrow>
      Config_init lib [PyUnicode p] None = (- 1, Some PyExc_IOError, None)"
    using neg by (simp add: Config_init_def PyArg_ParseTuple_opt_s_def split: prod.splits)
  have b: "fst (git_config_open_ondisk lib p) < 0 \<and> fst (git_config_open_ondisk lib p) \<noteq> GIT_ENOTFOUND \<longrightarrow>
      Config_init lib [PyUnicode p] None =
        (- 1, Some (Error_set (fst (git_config_open_ondisk lib p))), None)"
    by (simp add: Config_init_def PyArg_ParseTuple_opt_s_def split: prod.splits)
  have c: "fst (git_config_find_global lib) = GIT_ENOTFOUND \<longrightarrow>
      Config_get_global_config lib = (None, Some PyExc_IOError)"
    using neg by (simp add: Config_get_global_config_def split: prod.splits)
  have d: "fst (git_config_find_global lib) < 0 \<and> fst (git_config_find_global lib) \<noteq> GIT_ENOTFOUND \<longrightarrow>
      Config_get_global_config lib = (None, Some (Error_set (fst (git_config_find_global lib))))"
    by (simp add: Config_get_global_config_def split: prod.splits)
  have e: "error_kind PyExc_IOError = IOError" by (simp add: error_kind_def)
  from a b c d e show ?thesis by blast
qed

theorem open_not_found_raises_IOError_witness:
  "Config_init mem_lib [PyUnicode ''/no/such/config''] None = (- 1, Some PyExc_IOError, None)
   \<and> Config_get_global_config mem_lib = (None, Some PyExc_IOError)"
proof -
  have o: "fst (git_config_open_ondisk mem_lib ''/no/such/config'') = GIT_ENOTFOUND"
    by (simp add: mem_lib_def mem_files_def)
  have g: "fst (git_config_find_global mem_lib) = GIT_ENOTFOUND"
    by (simp add: mem_lib_def)
  from open_not_found_raises_IOError[of mem_lib "''/no/such/config''"] o g
  show ?thesis by simp
qed

text \<open>
  Claim C5 as stated fails: for a path that does not exist the exception is
  \<^verbatim>\<open>IOError\<close>, which is not of the "not found" kind; the claim keeps \<^verbatim>\<open>IOError\<close> for
  the other read failures.
\<close>

theorem open_not_found_counterexample:
  "Config_init mem_lib [PyUnicode ''/no/such/config''] None = (- 1, Some PyExc_IOError, None)
   \<and> error_kind PyExc_IOError \<noteq> NotFound
   \<and> Config_get_global_config mem_lib = (None, Some PyExc_IOError)"
  by (simp add: Config_init_def PyArg_ParseTuple_opt_s_def mem_lib_def mem_files_def
                GIT_ENOTFOUND_def error_kind_def Config_get_global_config_def)

subsection \<open>Visitors that fail\<close>

text \<open>
  Claim C10, as amended. Let the visitor, called on the entry \<open>e\<close> after the entries
  \<open>pre\<close>, either return the integer \<open>-1\<close> or raise an exception. In both cases the wrapper
  hands \<open>-1\<close> to libgit2, the enumeration stops at \<open>e\<close>, and \<^verbatim>\<open>foreach\<close> returns the
  integer \<open>-1\<close>: neither \<^verbatim>\<open>Config_foreach\<close> nor the value it returns tells a visitor
  that returned \<open>-1\<close> from a visitor that failed. The two runs differ in the error
  indicator alone: it is left as it was when the visitor returned \<open>-1\<close>, and holds the
  visitor's exception when the visitor failed.
\<close>

theorem foreach_minus_one_like_failure:
  assumes parse: "PyArg_ParseTuple_O_opt_O args = Some (PyFunction f, payload)"
      and entries: "config_entries lib config = pre @ e # post"
      and zeros: "git_config_foreach_loop pre (Config_foreach_callback_wrapper py args) st = (0, st1)"
      and build: "Py_BuildValue_ss py (name e) (val e) payload = Some a"
      and call: "PyObject_CallObject py (PyFunction f) a (heap st1) = (res, h)"
      and outcome: "res = Returns (PyLong (- 1)) \<or> res = Raises x"
  shows "fst (Config_foreach_callback_wrapper py args e st1) = - 1
       \<and> fst (Config_foreach lib py config args st) = Some (PyLong (- 1))
       \<and> calls (snd (Config_foreach lib py config args st)) = calls st1 @ [(PyFunction f, a)]
       \<and> heap (snd (Config_foreach lib py config args st)) = h
       \<and> err_indicator (snd (Config_foreach lib py config args st)) =
           (case res of Returns v \<Rightarrow> err_indicator st1 | Raises y \<Rightarrow> Some y)"
proof -
  have loop: "git_config_foreach_loop (pre @ e # post) (Config_foreach_callback_wrapper py args) st =
          git_config_foreach_loop (e # post) (Config_foreach_callback_wrapper py args) st1"
    by (rule foreach_loop_append[OF zeros])
  show ?thesis
  proof (rule disjE[OF outcome])
    assume r: "res = Returns (PyLong (- 1))"
    have step: "Config_foreach_callback_wrapper py args e st1 =
          (- 1, st1\<lparr>calls := calls st1 @ [(PyFunction f, a)], heap := h\<rparr>)"
      using wrapper_returns[OF parse build call[unfolded r]] by simp
    have "Config_foreach lib py config args st =
          (Some (PyLong (- 1)), st1\<lparr>calls := calls st1 @ [(PyFunction f, a)], heap := h\<rparr>)"
      using loop step entries by (simp add: Config_foreach_unfold[OF parse])
    with step r show ?thesis by simp
  next
    assume r: "res = Raises x"
    have step: "Config_foreach_callback_wrapper py args e st1 =
          (- 1, st1\<lparr>calls := calls st1 @ [(PyFunction f, a)], heap := h,
                     err_indicator := Some x\<rparr>)"
      by (rule wrapper_raises[OF parse build call[unfolded r]])
    have "Config_foreach lib py config args st =
          (Some (PyLong (- 1)), st1\<lparr>calls := calls st1 @ [(PyFunction f, a)], heap := h,
                                     err_indicator := Some x\<rparr>)"
      using loop step entries by (simp add: Config_foreach_unfold[OF parse])
    with step r show ?thesis by simp
  qed
qed

theorem foreach_minus_one_like_failure_witness:
  "fst (Config_foreach mem_lib mem_py five [PyFunction 2] st0) = Some (PyLong (- 1))
   \<and> fst (Config_foreach mem_lib mem_py five [PyFunction 3] st0) = Some (PyLong (- 1))
   \<and> map snd (calls (snd (Config_foreach mem_lib mem_py five [PyFunction 2] st0))) =
       [[PyUnicode ''e.k1'', PyUnicode ''v1'']]
   \<and> map snd (calls (snd (Config_foreach mem_lib mem_py five [PyFunction 3] st0))) =
       [[PyUnicode ''e.k1'', PyUnicode ''v1'']]
   \<and> err_indicator (snd (Config_foreach mem_lib mem_py five [PyFunction 2] st0)) = None
   \<and> err_indicator (snd (Config_foreach mem_lib mem_py five [PyFunction 3] st0)) =
       Some (PyExc_Exception 7)"
proof -
  let ?e = "\<lparr>name = ''e.k1'', val = ''v1''\<rparr>"
  let ?post = "[\<lparr>name = ''e.k2'', val = ''v2''\<rparr>, \<lparr>name = ''e.k3'', val = ''v3''\<rparr>,
                \<lparr>name = ''e.k4'', val = ''v4''\<rparr>, \<lparr>name = ''e.k5'', val = ''v5''\<rparr>]"
  have p2: "PyArg_ParseTuple_O_opt_O [PyFunction 2] = Some (PyFunction 2, None)"
   and p3: "PyArg_ParseTuple_O_opt_O [PyFunction 3] = Some (PyFunction 3, None)"
    by (simp_all add: PyArg_ParseTuple_O_opt_O_def)
  have entries: "config_entries mem_lib five = [] @ ?e # ?post"
    by (simp add: mem_lib_def five_def)
  have z2: "git_config_foreach_loop [] (Config_foreach_callback_wrapper mem_py [PyFunction 2]) st0 = (0, st0)"
   and z3: "git_config_foreach_loop [] (Config_foreach_callback_wrapper mem_py [PyFunction 3]) st0 = (0, st0)"
    by simp_all
  have build: "Py_BuildValue_ss mem_py (name ?e) (val ?e) None = Some [PyUnicode ''e.k1'', PyUnicode ''v1'']"
    by (simp add: Py_BuildValue_ss_def mem_py_def mem_decode_def)
  have c2: "PyObject_CallObject mem_py (PyFunction 2) [PyUnicode ''e.k1'', PyUnicode ''v1''] (heap st0)
              = (Returns (PyLong (- 1)), 1)"
   and c3: "PyObject_CallObject mem_py (PyFunction 3) [PyUnicode ''e.k1'', PyUnicode ''v1''] (heap st0)
              = (Raises (PyExc_Exception 7), 1)"
    by (simp_all add: mem_py_def mem_call_def st0_def)
  have o2: "Returns (PyLong (- 1)) = Returns (PyLong (- 1)) \<or> Returns (PyLong (- 1)) = Raises (PyExc_Exception 7)"
   and o3: "Raises (PyExc_Exception 7) = Returns (PyLong (- 1)) \<or> Raises (PyExc_Exception 7) = Raises (PyExc_Exception 7)"
    by simp_all
  from foreach_minus_one_like_failure[OF p2 entries z2 build c2 o2]
       foreach_minus_one_like_failure[OF p3 entries z3 build c3 o3]
  show ?thesis by (simp add: st0_def)
qed

text \<open>
  Claim C10 as stated fails: the two runs can be told apart. With the visitor
  \<open>PyFunction 2\<close>, which returns \<open>-1\<close> on the first entry, \<^verbatim>\<open>foreach\<close> returns \<open>-1\<close> with
  a clear error indicator; with the visitor \<open>PyFunction 3\<close>, which raises on the first
  entry, it returns \<open>-1\<close> with the visitor's exception in the indicator.
\<close>

theorem foreach_minus_one_indicator_counterexample:
  "Config_foreach mem_lib mem_py five [PyFunction 2] st0 =
     (Some (PyLong (- 1)),
      \<lparr>err_indicator = None,
       calls = [(PyFunction 2, [PyUnicode ''e.k1'', PyUnicode ''v1''])],
       heap = 1\<rparr>)
   \<and> Config_foreach mem_lib mem_py five [PyFunction 3] st0 =
     (Some (PyLong (- 1)),
      \<lparr>err_indicator = Some (PyExc_Exception 7),
       calls = [(PyFunction 3, [PyUnicode ''e.k1'', PyUnicode ''v1''])],
       heap = 1\<rparr>)"
  by (simp add: Config_foreach_def Config_foreach_callback_wrapper_def PyArg_ParseTuple_O_opt_O_def
        PyCallable_Check_def git_config_foreach_def Py_BuildValue_ss_def PyLong_AsLong_def
        int_of_long_def mem_lib_def mem_py_def mem_call_def mem_decode_def five_def st0_def)

text \<open>
  Claim C4 says that a failure of the visitor is propagated by \<^verbatim>\<open>foreach\<close> and never
  turned into an ordinary integer result. The source does otherwise: with the visitor
  \<open>PyFunction 3\<close>, which raises on the first entry, \<^verbatim>\<open>Config_foreach\<close> returns the
  integer \<open>-1\<close> (not \<^verbatim>\<open>NULL\<close>), and the exception stays in the error indicator.
\<close>

theorem foreach_raising_visitor_returns_integer:
  "Config_foreach mem_lib mem_py five [PyFunction 3] st0 =
     (Some (PyLong (- 1)),
      \<lparr>err_indicator = Some (PyExc_Exception 7),
       calls = [(PyFunction 3, [PyUnicode ''e.k1'', PyUnicode ''v1''])],
       heap = 1\<rparr>)"
  by (simp add: Config_foreach_def Config_foreach_callback_wrapper_def PyArg_ParseTuple_O_opt_O_def
        PyCallable_Check_def git_config_foreach_def Py_BuildValue_ss_def
        mem_lib_def mem_py_def mem_call_def mem_decode_def five_def st0_def)

subsection \<open>Values that cannot be materialised\<close>

text \<open>
  Claim C2 says that \<^verbatim>\<open>getMultivar\<close> reports an error when a value cannot be
  materialised in the middle of the enumeration. The source does otherwise: the second
  of the three values of \<^verbatim>\<open>a.multi\<close> cannot be decoded, and \<^verbatim>\<open>Config_get_multivar\<close>
  returns the list of the one value collected before it (not \<^verbatim>\<open>NULL\<close>), with the
  exception left in the error indicator.
\<close>

theorem get_multivar_returns_partial_list:
  "Config_get_multivar mem_lib mem_py sample [PyUnicode ''a.multi''] =
     (Some (PyList [PyUnicode ''x1'']), Some PyExc_UnicodeDecodeError)"
  by (simp add: Config_get_multivar_def Config_get_multivar_fn_wrapper_def
        git_config_get_multivar_foreach_def PyArg_ParseTuple_s_opt_s_def
        mem_lib_def mem_py_def mem_decode_def sample_def)

end
